theory Spec2Isabelle
  imports Main "HOL-Library.Word"
begin

section \<open>The bundle service of pkg/server/api/bundle/v1/service.go\<close>

text \<open>
  A shallow embedding of the v1 bundle service. The service is a thin layer between an
  API request and three collaborators it reaches through interfaces: the datastore, the
  upstream publisher and the call-rate limiter. The collaborators and the library
  functions the service calls (go-spiffe's trust-domain parser, the converters of
  pkg/server/api) are parameters of the model; every theorem holds for all of them.

  Conventions.
  \<^item> A Go pointer that the service tests against nil (an output mask, the JWT authority of
    a publish request, the bundle or the pagination of a datastore response, an error)
    is an \<open>option\<close>. A pointer that the service dereferences with no test (a request, a
    batch item, the response a datastore call returns beside its error) is a plain value.
  \<^item> A slice is a list; a nil slice and an empty slice are both \<open>[]\<close>.
  \<^item> Logging and the request context are not modelled.
  \<^item> \<open>CountBundles\<close> and \<open>GetBundle\<close>, which only read the datastore, are left out.
\<close>

subsection \<open>Codes, errors and statuses\<close>

text \<open>
  \<open>codes.Code\<close> of google.golang.org/grpc is a \<open>uint32\<close>; the named codes are its
  canonical values.
\<close>

type_synonym codes_Code = "32 word"

definition codes_OK :: codes_Code where "codes_OK = 0"
definition codes_Unknown :: codes_Code where "codes_Unknown = 2"
definition codes_InvalidArgument :: codes_Code where "codes_InvalidArgument = 3"
definition codes_NotFound :: codes_Code where "codes_NotFound = 5"
definition codes_AlreadyExists :: codes_Code where "codes_AlreadyExists = 6"
definition codes_ResourceExhausted :: codes_Code where "codes_ResourceExhausted = 8"
definition codes_FailedPrecondition :: codes_Code where "codes_FailedPrecondition = 9"
definition codes_Internal :: codes_Code where "codes_Internal = 13"

lemmas codes_defs =
  codes_OK_def codes_Unknown_def codes_InvalidArgument_def codes_NotFound_def
  codes_AlreadyExists_def codes_ResourceExhausted_def codes_FailedPrecondition_def
  codes_Internal_def

text \<open>
  The delete mode of a batch delete request is a protobuf enum, an \<open>int32\<close> on the wire:
  a request can carry any value, named or not.
\<close>

type_synonym BatchDeleteFederatedBundleRequest_Mode = "32 word"

definition BatchDeleteFederatedBundleRequest_RESTRICT :: BatchDeleteFederatedBundleRequest_Mode
  where "BatchDeleteFederatedBundleRequest_RESTRICT = 0"
definition BatchDeleteFederatedBundleRequest_DELETE :: BatchDeleteFederatedBundleRequest_Mode
  where "BatchDeleteFederatedBundleRequest_DELETE = 1"
definition BatchDeleteFederatedBundleRequest_DISSOCIATE :: BatchDeleteFederatedBundleRequest_Mode
  where "BatchDeleteFederatedBundleRequest_DISSOCIATE = 2"

lemmas mode_defs =
  BatchDeleteFederatedBundleRequest_RESTRICT_def
  BatchDeleteFederatedBundleRequest_DELETE_def
  BatchDeleteFederatedBundleRequest_DISSOCIATE_def

text \<open>The datastore's delete mode; \<open>parseDeleteMode\<close> returns these three values only.\<close>

datatype DeleteBundleRequest_Mode =
    DeleteBundleRequest_RESTRICT
  | DeleteBundleRequest_DELETE
  | DeleteBundleRequest_DISSOCIATE

text \<open>
  Errors as values. \<open>StatusError c m cause\<close> is a gRPC status error with code \<open>c\<close>;
  \<open>UnhandledDeleteMode m\<close> is \<^verbatim>\<open>fmt.Errorf("unhandled delete mode %q", mode)\<close>, which
  prints the mode it was given; \<open>PlainError\<close> is any other error; \<open>RuntimePanic\<close> is
  a Go run-time panic (an index out of range).
\<close>

datatype error =
    PlainError string
  | UnhandledDeleteMode BatchDeleteFederatedBundleRequest_Mode
  | StatusError codes_Code string "error option"
  | RuntimePanic string

text \<open>
  \<open>status.Code\<close> of google.golang.org/grpc: OK for a nil error, the code of a status
  error, Unknown for any other error.
\<close>

fun status_Code :: "error option \<Rightarrow> codes_Code" where
  "status_Code None = codes_OK"
| "status_Code (Some (StatusError c m cause)) = c"
| "status_Code (Some e) = codes_Unknown"

record types_Status =
  Code :: codes_Code
  Message :: string
  Cause :: "error option"

text \<open>
  Modelled from the spec: \<open>api.MakeErr\<close>, \<open>api.MakeStatus\<close> and \<open>api.OK\<close> are
  functions of pkg/server/api, which is not among the sources. The spec describes their
  result as a discriminant (the status code) plus a message plus an optional underlying
  cause, so the model keeps the three arguments of the call.
\<close>

definition MakeErr :: "codes_Code \<Rightarrow> string \<Rightarrow> error option \<Rightarrow> error" where
  "MakeErr code msg err = StatusError code msg err"

definition MakeStatus :: "codes_Code \<Rightarrow> string \<Rightarrow> error option \<Rightarrow> types_Status" where
  "MakeStatus code msg err = \<lparr>Code = code, Message = msg, Cause = err\<rparr>"

definition api_OK :: types_Status where
  "api_OK = \<lparr>Code = codes_OK, Message = ''OK'', Cause = None\<rparr>"

subsection \<open>Bundles and masks\<close>

type_synonym bytes = "8 word list"

record types_X509Certificate =
  Asn1 :: bytes

record types_JWTKey =
  PublicKey :: bytes
  KeyId :: string
  ExpiresAt :: "64 word"

record types_Bundle =
  TrustDomain :: string
  RefreshHint :: "64 word"
  SequenceNumber :: "64 word"
  X509Authorities :: "types_X509Certificate list"
  JwtAuthorities :: "types_JWTKey list"

text \<open>
  The four selectors of \<open>types.BundleMask\<close>. The Go fields carry the names of the bundle's
  fields; record fields share one name space, hence the prefix.
\<close>

record types_BundleMask =
  mask_RefreshHint :: bool
  mask_SequenceNumber :: bool
  mask_X509Authorities :: bool
  mask_JwtAuthorities :: bool

text \<open>
  \<open>applyBundleMask\<close> mutates the bundle behind the pointer \<open>b\<close>; the model returns the
  bundle after the call. The four tests run one after the other on the same bundle.
\<close>

definition applyBundleMask :: "types_Bundle \<Rightarrow> types_BundleMask option \<Rightarrow> types_Bundle" where
  "applyBundleMask b bmask =
     (case bmask of
        None \<Rightarrow> b
      | Some m \<Rightarrow>
          (let b1 = (if \<not> mask_RefreshHint m then b\<lparr>RefreshHint := 0\<rparr> else b);
               b2 = (if \<not> mask_SequenceNumber m then b1\<lparr>SequenceNumber := 0\<rparr> else b1);
               b3 = (if \<not> mask_X509Authorities m then b2\<lparr>X509Authorities := []\<rparr> else b2);
               b4 = (if \<not> mask_JwtAuthorities m then b3\<lparr>JwtAuthorities := []\<rparr> else b3)
           in b4))"

subsection \<open>The delete mode\<close>

text \<open>
  \<open>parseDeleteMode\<close> returns a pair, as the Go function does: the datastore mode and the
  error. On an unhandled mode the first component is RESTRICT and the error is set.
\<close>

definition parseDeleteMode ::
  "BatchDeleteFederatedBundleRequest_Mode \<Rightarrow> DeleteBundleRequest_Mode \<times> error option" where
  "parseDeleteMode mode =
     (if mode = BatchDeleteFederatedBundleRequest_RESTRICT then
        (DeleteBundleRequest_RESTRICT, None)
      else if mode = BatchDeleteFederatedBundleRequest_DISSOCIATE then
        (DeleteBundleRequest_DISSOCIATE, None)
      else if mode = BatchDeleteFederatedBundleRequest_DELETE then
        (DeleteBundleRequest_DELETE, None)
      else
        (DeleteBundleRequest_RESTRICT, Some (UnhandledDeleteMode mode)))"

subsection \<open>The datastore's data\<close>

text \<open>
  The parts of \<open>common.Bundle\<close> and of the datastore's requests and responses that the
  service reads or writes. A request or response struct with one field is that field:
  a fetch request is its trust-domain id, a create request is its bundle, a fetch or
  create response is its bundle pointer.
\<close>

record common_Certificate =
  DerBytes :: bytes

record common_PublicKey =
  PkixBytes :: bytes
  Kid :: string
  NotAfter :: "64 word"

record common_Bundle =
  TrustDomainId :: string
  RootCas :: "common_Certificate list"
  JwtSigningKeys :: "common_PublicKey list"
  common_RefreshHint :: "64 word"

record common_BundleMask =
  cmask_RootCas :: bool
  cmask_JwtSigningKeys :: bool
  cmask_RefreshHint :: bool

record datastore_Pagination =
  Token :: string
  PageSize :: "32 word"

record datastore_ListBundlesResponse =
  Bundles :: "common_Bundle list"
  Pagination :: "datastore_Pagination option"

subsection \<open>Collaborators and their calls\<close>

text \<open>
  The state of everything outside the service (the datastore's contents, the limiter's
  budget, the publisher) is a value of an arbitrary type \<open>'x\<close>. A collaborator's
  method takes that state and returns its Go results with the state after the call; the
  Go pair of a response and an error is a pair of a response and an \<open>error option\<close>.
\<close>

record 'x DataStore =
  ds_FetchBundle :: "string \<Rightarrow> 'x \<Rightarrow> (common_Bundle option \<times> error option) \<times> 'x"
  ds_ListBundles ::
    "datastore_Pagination option \<Rightarrow> 'x \<Rightarrow> (datastore_ListBundlesResponse \<times> error option) \<times> 'x"
  ds_CreateBundle :: "common_Bundle \<Rightarrow> 'x \<Rightarrow> (common_Bundle option \<times> error option) \<times> 'x"
  ds_UpdateBundle ::
    "common_Bundle \<Rightarrow> common_BundleMask option \<Rightarrow> 'x
       \<Rightarrow> (common_Bundle option \<times> error option) \<times> 'x"
  ds_SetBundle :: "common_Bundle \<Rightarrow> 'x \<Rightarrow> (common_Bundle option \<times> error option) \<times> 'x"
  ds_AppendBundle :: "common_Bundle \<Rightarrow> 'x \<Rightarrow> (common_Bundle option \<times> error option) \<times> 'x"
  ds_DeleteBundle :: "string \<Rightarrow> DeleteBundleRequest_Mode \<Rightarrow> 'x \<Rightarrow> error option \<times> 'x"

type_synonym 'x UpstreamPublisher =
  "common_PublicKey \<Rightarrow> 'x \<Rightarrow> (common_PublicKey list \<times> error option) \<times> 'x"

text \<open>The service: its datastore, its own trust domain, its publisher.\<close>

record ('td, 'x) Service =
  ds :: "'x DataStore"
  td :: 'td
  up :: "'x UpstreamPublisher"

text \<open>
  The functions of other packages that the service calls: \<open>spiffeid.TrustDomainFromString\<close>,
  \<open>TrustDomain.Compare\<close> and \<open>TrustDomain.IDString\<close> of go-spiffe (a trust domain is a
  value of an arbitrary type \<open>'td\<close>), the converters of pkg/server/api, and
  \<open>rpccontext.RateLimit\<close>.
\<close>

record ('td, 'x) Lib =
  TrustDomainFromString :: "string \<Rightarrow> error + 'td"
  Compare :: "'td \<Rightarrow> 'td \<Rightarrow> int"
  IDString :: "'td \<Rightarrow> string"
  BundleToProto :: "common_Bundle option \<Rightarrow> error + types_Bundle"
  ProtoToBundle :: "types_Bundle \<Rightarrow> error + common_Bundle"
  ProtoToBundleMask :: "types_BundleMask option \<Rightarrow> common_BundleMask option"
  ParseJWTAuthorities :: "types_JWTKey list \<Rightarrow> error + common_PublicKey list"
  ParseX509Authorities :: "types_X509Certificate list \<Rightarrow> error + common_Certificate list"
  PublicKeysToProto :: "common_PublicKey list \<Rightarrow> types_JWTKey list"
  RateLimit :: "nat \<Rightarrow> 'x \<Rightarrow> error option \<times> 'x"

text \<open>
  The world a request runs in: the external state and the log of the calls made to the
  collaborators so far, each with its arguments. The log is what the properties
  "the storage layer is not called" and "the publisher is never invoked" are about.
\<close>

datatype call =
    Call_RateLimit nat
  | Call_FetchBundle string
  | Call_ListBundles "datastore_Pagination option"
  | Call_CreateBundle common_Bundle
  | Call_UpdateBundle common_Bundle "common_BundleMask option"
  | Call_SetBundle common_Bundle
  | Call_AppendBundle common_Bundle
  | Call_DeleteBundle string DeleteBundleRequest_Mode
  | Call_PublishJWTKey common_PublicKey

record 'x world =
  ext :: 'x
  calls :: "call list"

definition invoke :: "call \<Rightarrow> ('x \<Rightarrow> 'r \<times> 'x) \<Rightarrow> 'x world \<Rightarrow> 'r \<times> 'x world" where
  "invoke c f w = (let (r, x') = f (ext w) in (r, \<lparr>ext = x', calls = calls w @ [c]\<rparr>))"

subsection \<open>Requests, responses and results\<close>

record AppendBundleRequest =
  ab_X509Authorities :: "types_X509Certificate list"
  ab_JwtAuthorities :: "types_JWTKey list"
  ab_OutputMask :: "types_BundleMask option"

record PublishJWTAuthorityRequest =
  pja_JwtAuthority :: "types_JWTKey option"

record ListFederatedBundlesRequest =
  lfb_PageSize :: "32 word"
  lfb_PageToken :: string
  lfb_OutputMask :: "types_BundleMask option"

record ListFederatedBundlesResponse =
  resp_Bundles :: "types_Bundle list"
  NextPageToken :: string

record GetFederatedBundleRequest =
  gfb_TrustDomain :: string
  gfb_OutputMask :: "types_BundleMask option"

record BatchCreateFederatedBundleRequest =
  bc_Bundle :: "types_Bundle list"
  bc_OutputMask :: "types_BundleMask option"

record BatchUpdateFederatedBundleRequest =
  bu_Bundle :: "types_Bundle list"
  bu_InputMask :: "types_BundleMask option"
  bu_OutputMask :: "types_BundleMask option"

record BatchSetFederatedBundleRequest =
  bs_Bundle :: "types_Bundle list"
  bs_OutputMask :: "types_BundleMask option"

record BatchDeleteFederatedBundleRequest =
  bd_Mode :: BatchDeleteFederatedBundleRequest_Mode
  bd_TrustDomains :: "string list"

text \<open>
  The per-item result of the create, update and set batches (three Go types of one
  shape: a status and a bundle pointer) and of the delete batch (a status and the trust
  domain as it was given).
\<close>

record Bundle_Result =
  Status :: types_Status
  Bundle :: "types_Bundle option"

record Delete_Result =
  del_Status :: types_Status
  del_TrustDomain :: string

subsection \<open>AppendBundle and PublishJWTAuthority\<close>

definition AppendBundle ::
  "('td, 'x) Lib \<Rightarrow> ('td, 'x) Service \<Rightarrow> AppendBundleRequest \<Rightarrow> 'x world
     \<Rightarrow> (error + types_Bundle) \<times> 'x world" where
  "AppendBundle lib s req w =
     (if length (ab_JwtAuthorities req) = 0 \<and> length (ab_X509Authorities req) = 0 then
        (Inl (MakeErr codes_InvalidArgument ''no authorities to append'' None), w)
      else
        (case ParseJWTAuthorities lib (ab_JwtAuthorities req) of
           Inl err \<Rightarrow>
             (Inl (MakeErr codes_InvalidArgument ''failed to convert JWT authority'' (Some err)), w)
         | Inr jwtAuth \<Rightarrow>
             (case ParseX509Authorities lib (ab_X509Authorities req) of
                Inl err \<Rightarrow>
                  (Inl (MakeErr codes_InvalidArgument ''failed to convert X.509 authority''
                     (Some err)), w)
              | Inr x509Auth \<Rightarrow>
                  (let dsBundle = \<lparr>TrustDomainId = IDString lib (td s), RootCas = x509Auth,
                                    JwtSigningKeys = jwtAuth, common_RefreshHint = 0\<rparr>;
                       ((resp, err), w1) =
                         invoke (Call_AppendBundle dsBundle) (ds_AppendBundle (ds s) dsBundle) w
                   in if err \<noteq> None then
                        (Inl (MakeErr codes_Internal ''failed to append bundle'' err), w1)
                      else
                        (case BundleToProto lib resp of
                           Inl err2 \<Rightarrow>
                             (Inl (MakeErr codes_Internal ''failed to convert bundle''
                                (Some err2)), w1)
                         | Inr bundle \<Rightarrow>
                             (Inr (applyBundleMask bundle (ab_OutputMask req)), w1))))))"

text \<open>
  \<open>keys[0]\<close> panics when the converter returns no key; the panic is the value
  \<open>RuntimePanic\<close>.
\<close>

definition PublishJWTAuthority ::
  "('td, 'x) Lib \<Rightarrow> ('td, 'x) Service \<Rightarrow> PublishJWTAuthorityRequest \<Rightarrow> 'x world
     \<Rightarrow> (error + types_JWTKey list) \<times> 'x world" where
  "PublishJWTAuthority lib s req w =
     (let (err, w1) = invoke (Call_RateLimit 1) (RateLimit lib 1) w
      in if err \<noteq> None then
           (Inl (MakeErr (status_Code err)
              ''rejecting request due to key publishing rate limiting'' err), w1)
         else
           (case pja_JwtAuthority req of
              None \<Rightarrow> (Inl (MakeErr codes_InvalidArgument ''missing JWT authority'' None), w1)
            | Some jwtAuthority \<Rightarrow>
                (case ParseJWTAuthorities lib [jwtAuthority] of
                   Inl err1 \<Rightarrow>
                     (Inl (MakeErr codes_InvalidArgument ''invalid JWT authority'' (Some err1)), w1)
                 | Inr keys \<Rightarrow>
                     (case keys of
                        [] \<Rightarrow> (Inl (RuntimePanic ''index out of range''), w1)
                      | key0 # rest \<Rightarrow>
                          (let ((resp, err2), w2) =
                                 invoke (Call_PublishJWTKey key0) (up s key0) w1
                           in if err2 \<noteq> None then
                                (Inl (MakeErr codes_Internal ''failed to publish JWT key'' err2), w2)
                              else
                                (Inr (PublicKeysToProto lib resp), w2))))))"

subsection \<open>ListFederatedBundles and GetFederatedBundle\<close>

text \<open>
  The loop over the bundles the datastore returned. \<open>acc\<close> is \<open>resp.Bundles\<close> so far;
  a \<open>return nil, err\<close> inside the loop drops it.
\<close>

fun list_loop ::
  "('td, 'x) Lib \<Rightarrow> ('td, 'x) Service \<Rightarrow> types_BundleMask option \<Rightarrow> common_Bundle list
     \<Rightarrow> types_Bundle list \<Rightarrow> error + types_Bundle list" where
  "list_loop lib s outputMask [] acc = Inr acc"
| "list_loop lib s outputMask (dsBundle # rest) acc =
     (case TrustDomainFromString lib (TrustDomainId dsBundle) of
        Inl err \<Rightarrow>
          Inl (MakeErr codes_Internal ''bundle has an invalid trust domain ID'' (Some err))
      | Inr tdom \<Rightarrow>
          if Compare lib (td s) tdom = 0 then list_loop lib s outputMask rest acc
          else
            (case BundleToProto lib (Some dsBundle) of
               Inl err \<Rightarrow> Inl (MakeErr codes_Internal ''failed to convert bundle'' (Some err))
             | Inr b \<Rightarrow> list_loop lib s outputMask rest (acc @ [applyBundleMask b outputMask])))"

definition ListFederatedBundles ::
  "('td, 'x) Lib \<Rightarrow> ('td, 'x) Service \<Rightarrow> ListFederatedBundlesRequest \<Rightarrow> 'x world
     \<Rightarrow> (error + ListFederatedBundlesResponse) \<times> 'x world" where
  "ListFederatedBundles lib s req w =
     (let listReq =
            (if 0 < sint (lfb_PageSize req)
             then Some \<lparr>Token = lfb_PageToken req, PageSize = lfb_PageSize req\<rparr>
             else None);
          ((dsResp, err), w1) = invoke (Call_ListBundles listReq) (ds_ListBundles (ds s) listReq) w
      in if err \<noteq> None then (Inl (MakeErr codes_Internal ''failed to list bundles'' err), w1)
         else
           (let nextPageToken =
                  (case Pagination dsResp of None \<Rightarrow> [] | Some p \<Rightarrow> Token p)
            in case list_loop lib s (lfb_OutputMask req) (Bundles dsResp) [] of
                 Inl e \<Rightarrow> (Inl e, w1)
               | Inr bs \<Rightarrow> (Inr \<lparr>resp_Bundles = bs, NextPageToken = nextPageToken\<rparr>, w1)))"

definition GetFederatedBundle ::
  "('td, 'x) Lib \<Rightarrow> ('td, 'x) Service \<Rightarrow> GetFederatedBundleRequest \<Rightarrow> 'x world
     \<Rightarrow> (error + types_Bundle) \<times> 'x world" where
  "GetFederatedBundle lib s req w =
     (case TrustDomainFromString lib (gfb_TrustDomain req) of
        Inl err \<Rightarrow>
          (Inl (MakeErr codes_InvalidArgument ''trust domain argument is not valid'' (Some err)), w)
      | Inr tdom \<Rightarrow>
          if Compare lib (td s) tdom = 0 then
            (Inl (MakeErr codes_InvalidArgument
               ''getting a federated bundle for the server's own trust domain is not allowed''
               None), w)
          else
            (let ((dsResp, err), w1) =
                   invoke (Call_FetchBundle (IDString lib tdom))
                     (ds_FetchBundle (ds s) (IDString lib tdom)) w
             in if err \<noteq> None then
                  (Inl (MakeErr codes_Internal ''failed to fetch bundle'' err), w1)
                else if dsResp = None then
                  (Inl (MakeErr codes_NotFound ''bundle not found'' None), w1)
                else
                  (case BundleToProto lib dsResp of
                     Inl err2 \<Rightarrow>
                       (Inl (MakeErr codes_Internal ''failed to convert bundle'' (Some err2)), w1)
                   | Inr b \<Rightarrow> (Inr (applyBundleMask b (gfb_OutputMask req)), w1))))"

subsection \<open>The per-item handlers\<close>

definition createFederatedBundle ::
  "('td, 'x) Lib \<Rightarrow> ('td, 'x) Service \<Rightarrow> types_Bundle \<Rightarrow> types_BundleMask option \<Rightarrow> 'x world
     \<Rightarrow> Bundle_Result \<times> 'x world" where
  "createFederatedBundle lib s b outputMask w =
     (case TrustDomainFromString lib (TrustDomain b) of
        Inl err \<Rightarrow>
          (\<lparr>Status = MakeStatus codes_InvalidArgument ''trust domain argument is not valid''
                      (Some err),
            Bundle = None\<rparr>, w)
      | Inr tdom \<Rightarrow>
          if Compare lib (td s) tdom = 0 then
            (\<lparr>Status = MakeStatus codes_InvalidArgument
                 ''creating a federated bundle for the server's own trust domain is not allowed''
                 None,
              Bundle = None\<rparr>, w)
          else
            (case ProtoToBundle lib b of
               Inl err \<Rightarrow>
                 (\<lparr>Status = MakeStatus codes_InvalidArgument ''failed to convert bundle''
                             (Some err),
                   Bundle = None\<rparr>, w)
             | Inr dsBundle \<Rightarrow>
                 (let ((resp, err), w1) =
                        invoke (Call_CreateBundle dsBundle) (ds_CreateBundle (ds s) dsBundle) w
                  in if status_Code err = codes_OK then
                       (case BundleToProto lib resp of
                          Inl err2 \<Rightarrow>
                            (\<lparr>Status = MakeStatus codes_Internal ''failed to convert bundle''
                                        (Some err2),
                              Bundle = None\<rparr>, w1)
                        | Inr protoBundle \<Rightarrow>
                            (\<lparr>Status = api_OK,
                              Bundle = Some (applyBundleMask protoBundle outputMask)\<rparr>, w1))
                     else if status_Code err = codes_AlreadyExists then
                       (\<lparr>Status = MakeStatus codes_AlreadyExists ''bundle already exists'' None,
                         Bundle = None\<rparr>, w1)
                     else
                       (\<lparr>Status = MakeStatus codes_Internal ''unable to create bundle'' err,
                         Bundle = None\<rparr>, w1))))"

definition setFederatedBundle ::
  "('td, 'x) Lib \<Rightarrow> ('td, 'x) Service \<Rightarrow> types_Bundle \<Rightarrow> types_BundleMask option \<Rightarrow> 'x world
     \<Rightarrow> Bundle_Result \<times> 'x world" where
  "setFederatedBundle lib s b outputMask w =
     (case TrustDomainFromString lib (TrustDomain b) of
        Inl err \<Rightarrow>
          (\<lparr>Status = MakeStatus codes_InvalidArgument ''trust domain argument is not valid''
                      (Some err),
            Bundle = None\<rparr>, w)
      | Inr tdom \<Rightarrow>
          if Compare lib (td s) tdom = 0 then
            (\<lparr>Status = MakeStatus codes_InvalidArgument
                 ''setting a federated bundle for the server's own trust domain is not allowed''
                 None,
              Bundle = None\<rparr>, w)
          else
            (case ProtoToBundle lib b of
               Inl err \<Rightarrow>
                 (\<lparr>Status = MakeStatus codes_InvalidArgument ''failed to convert bundle''
                             (Some err),
                   Bundle = None\<rparr>, w)
             | Inr dsBundle \<Rightarrow>
                 (let ((resp, err), w1) =
                        invoke (Call_SetBundle dsBundle) (ds_SetBundle (ds s) dsBundle) w
                  in if err \<noteq> None then
                       (\<lparr>Status = MakeStatus codes_Internal ''failed to set bundle'' err,
                         Bundle = None\<rparr>, w1)
                     else
                       (case BundleToProto lib resp of
                          Inl err2 \<Rightarrow>
                            (\<lparr>Status = MakeStatus codes_Internal ''failed to convert bundle''
                                        (Some err2),
                              Bundle = None\<rparr>, w1)
                        | Inr protoBundle \<Rightarrow>
                            (\<lparr>Status = api_OK,
                              Bundle = Some (applyBundleMask protoBundle outputMask)\<rparr>, w1)))))"

definition updateFederatedBundle ::
  "('td, 'x) Lib \<Rightarrow> ('td, 'x) Service \<Rightarrow> types_Bundle \<Rightarrow> types_BundleMask option
     \<Rightarrow> types_BundleMask option \<Rightarrow> 'x world \<Rightarrow> Bundle_Result \<times> 'x world" where
  "updateFederatedBundle lib s b inputMask outputMask w =
     (case TrustDomainFromString lib (TrustDomain b) of
        Inl err \<Rightarrow>
          (\<lparr>Status = MakeStatus codes_InvalidArgument ''trust domain argument is not valid''
                      (Some err),
            Bundle = None\<rparr>, w)
      | Inr tdom \<Rightarrow>
          if Compare lib (td s) tdom = 0 then
            (\<lparr>Status = MakeStatus codes_InvalidArgument
                 ''updating a federated bundle for the server's own trust domain is not allowed''
                 None,
              Bundle = None\<rparr>, w)
          else
            (case ProtoToBundle lib b of
               Inl err \<Rightarrow>
                 (\<lparr>Status = MakeStatus codes_InvalidArgument ''failed to convert bundle''
                             (Some err),
                   Bundle = None\<rparr>, w)
             | Inr dsBundle \<Rightarrow>
                 (let dsMask = ProtoToBundleMask lib inputMask;
                      ((resp, err), w1) =
                        invoke (Call_UpdateBundle dsBundle dsMask)
                          (ds_UpdateBundle (ds s) dsBundle dsMask) w
                  in if status_Code err = codes_OK then
                       (case BundleToProto lib resp of
                          Inl err2 \<Rightarrow>
                            (\<lparr>Status = MakeStatus codes_Internal ''failed to convert bundle''
                                        (Some err2),
                              Bundle = None\<rparr>, w1)
                        | Inr protoBundle \<Rightarrow>
                            (\<lparr>Status = api_OK,
                              Bundle = Some (applyBundleMask protoBundle outputMask)\<rparr>, w1))
                     else if status_Code err = codes_NotFound then
                       (\<lparr>Status = MakeStatus codes_NotFound ''bundle not found'' err,
                         Bundle = None\<rparr>, w1)
                     else
                       (\<lparr>Status = MakeStatus codes_Internal ''failed to update bundle'' err,
                         Bundle = None\<rparr>, w1))))"

definition deleteFederatedBundle ::
  "('td, 'x) Lib \<Rightarrow> ('td, 'x) Service \<Rightarrow> string \<Rightarrow> DeleteBundleRequest_Mode \<Rightarrow> 'x world
     \<Rightarrow> Delete_Result \<times> 'x world" where
  "deleteFederatedBundle lib s trustDomain dmode w =
     (case TrustDomainFromString lib trustDomain of
        Inl err \<Rightarrow>
          (\<lparr>del_Status = MakeStatus codes_InvalidArgument ''trust domain argument is not valid''
                          (Some err),
            del_TrustDomain = trustDomain\<rparr>, w)
      | Inr tdom \<Rightarrow>
          if Compare lib (td s) tdom = 0 then
            (\<lparr>del_Status = MakeStatus codes_InvalidArgument
                 ''removing the bundle for the server trust domain is not allowed'' None,
              del_TrustDomain = trustDomain\<rparr>, w)
          else
            (let (err, w1) =
                   invoke (Call_DeleteBundle (IDString lib tdom) dmode)
                     (ds_DeleteBundle (ds s) (IDString lib tdom) dmode) w;
                 code = status_Code err
             in if code = codes_OK then
                  (\<lparr>del_Status = api_OK, del_TrustDomain = trustDomain\<rparr>, w1)
                else if code = codes_NotFound then
                  (\<lparr>del_Status = MakeStatus codes_NotFound ''bundle not found'' err,
                    del_TrustDomain = trustDomain\<rparr>, w1)
                else
                  (\<lparr>del_Status = MakeStatus code ''failed to delete federated bundle'' err,
                    del_TrustDomain = trustDomain\<rparr>, w1)))"

subsection \<open>The batch operations\<close>

text \<open>
  The four batch operations run the same loop, \<^verbatim>\<open>for _, b := range items
  { results = append(results, handler(b)) }\<close>, each with its own handler. The handler
  takes the world the previous items left and returns its result with the world after.
\<close>

fun batch_loop ::
  "('a \<Rightarrow> 'w \<Rightarrow> 'r \<times> 'w) \<Rightarrow> 'a list \<Rightarrow> 'r list \<Rightarrow> 'w \<Rightarrow> 'r list \<times> 'w" where
  "batch_loop handler [] results w = (results, w)"
| "batch_loop handler (b # bs) results w =
     (let (r, w1) = handler b w in batch_loop handler bs (results @ [r]) w1)"

definition BatchCreateFederatedBundle ::
  "('td, 'x) Lib \<Rightarrow> ('td, 'x) Service \<Rightarrow> BatchCreateFederatedBundleRequest \<Rightarrow> 'x world
     \<Rightarrow> (error + Bundle_Result list) \<times> 'x world" where
  "BatchCreateFederatedBundle lib s req w =
     (let (results, w1) =
            batch_loop (\<lambda>b. createFederatedBundle lib s b (bc_OutputMask req)) (bc_Bundle req) [] w
      in (Inr results, w1))"

definition BatchUpdateFederatedBundle ::
  "('td, 'x) Lib \<Rightarrow> ('td, 'x) Service \<Rightarrow> BatchUpdateFederatedBundleRequest \<Rightarrow> 'x world
     \<Rightarrow> (error + Bundle_Result list) \<times> 'x world" where
  "BatchUpdateFederatedBundle lib s req w =
     (let (results, w1) =
            batch_loop (\<lambda>b. updateFederatedBundle lib s b (bu_InputMask req) (bu_OutputMask req))
              (bu_Bundle req) [] w
      in (Inr results, w1))"

definition BatchSetFederatedBundle ::
  "('td, 'x) Lib \<Rightarrow> ('td, 'x) Service \<Rightarrow> BatchSetFederatedBundleRequest \<Rightarrow> 'x world
     \<Rightarrow> (error + Bundle_Result list) \<times> 'x world" where
  "BatchSetFederatedBundle lib s req w =
     (let (results, w1) =
            batch_loop (\<lambda>b. setFederatedBundle lib s b (bs_OutputMask req)) (bs_Bundle req) [] w
      in (Inr results, w1))"

definition BatchDeleteFederatedBundle ::
  "('td, 'x) Lib \<Rightarrow> ('td, 'x) Service \<Rightarrow> BatchDeleteFederatedBundleRequest \<Rightarrow> 'x world
     \<Rightarrow> (error + Delete_Result list) \<times> 'x world" where
  "BatchDeleteFederatedBundle lib s req w =
     (let (dmode, err) = parseDeleteMode (bd_Mode req)
      in if err \<noteq> None then
           (Inl (MakeErr codes_InvalidArgument ''failed to parse deletion mode'' err), w)
         else
           (let (results, w1) =
                  batch_loop (\<lambda>trustDomain. deleteFederatedBundle lib s trustDomain dmode)
                    (bd_TrustDomains req) [] w
            in (Inr results, w1)))"

subsection \<open>Notions the properties are stated with\<close>

text \<open>The status code a caller sees when a call fails; \<open>None\<close> when the call succeeds.\<close>

definition failure_code :: "error + 'a \<Rightarrow> codes_Code option" where
  "failure_code r = (case r of Inl e \<Rightarrow> Some (status_Code (Some e)) | Inr v \<Rightarrow> None)"

text \<open>
  \<open>world_before handler items w i\<close> is the world in which item \<open>i\<close> of a batch is
  handled: the world the handler has left after items \<open>0 .. i - 1\<close>, starting from \<open>w\<close>.
\<close>

fun world_before :: "('a \<Rightarrow> 'w \<Rightarrow> 'r \<times> 'w) \<Rightarrow> 'a list \<Rightarrow> 'w \<Rightarrow> nat \<Rightarrow> 'w" where
  "world_before handler items w 0 = w"
| "world_before handler [] w (Suc i) = w"
| "world_before handler (b # bs) w (Suc i) = world_before handler bs (snd (handler b w)) i"

text \<open>The pagination \<open>ListFederatedBundles\<close> sends to the datastore.\<close>

definition list_pagination :: "ListFederatedBundlesRequest \<Rightarrow> datastore_Pagination option" where
  "list_pagination req =
     (if 0 < sint (lfb_PageSize req)
      then Some \<lparr>Token = lfb_PageToken req, PageSize = lfb_PageSize req\<rparr>
      else None)"

text \<open>
  A stored bundle is federated when its trust-domain id parses to a trust domain other
  than the server's own.
\<close>

definition is_federated :: "('td, 'x) Lib \<Rightarrow> ('td, 'x) Service \<Rightarrow> common_Bundle \<Rightarrow> bool" where
  "is_federated lib s b =
     (case TrustDomainFromString lib (TrustDomainId b) of
        Inl e \<Rightarrow> False
      | Inr tdom \<Rightarrow> Compare lib (td s) tdom \<noteq> 0)"

subsection \<open>A test double\<close>

text \<open>
  A small concrete instance of the collaborators, on which the theorems below are
  evaluated. A trust domain is its name; the external state is the limiter's remaining
  budget and the list of stored bundles. The datastore refuses to delete a stored bundle
  in RESTRICT mode, as the SQL datastore does for a bundle that registration entries
  still reference.
\<close>

type_synonym fake_state = "nat \<times> common_Bundle list"

definition fake_TrustDomainFromString :: "string \<Rightarrow> error + string" where
  "fake_TrustDomainFromString str =
     (let name = (if take 9 str = ''spiffe://'' then drop 9 str else str)
      in if name = [] \<or> CHR ''/'' \<in> set name
         then Inl (PlainError ''trust domain is not valid'') else Inr name)"

definition fake_BundleToProto :: "common_Bundle option \<Rightarrow> error + types_Bundle" where
  "fake_BundleToProto cb =
     (case cb of
        None \<Rightarrow> Inl (PlainError ''no bundle provided'')
      | Some b \<Rightarrow>
          (case fake_TrustDomainFromString (TrustDomainId b) of
             Inl e \<Rightarrow> Inl e
           | Inr name \<Rightarrow>
               Inr \<lparr>TrustDomain = name, RefreshHint = common_RefreshHint b, SequenceNumber = 0,
                    X509Authorities = map (\<lambda>c. \<lparr>Asn1 = DerBytes c\<rparr>) (RootCas b),
                    JwtAuthorities =
                      map (\<lambda>k. \<lparr>PublicKey = PkixBytes k, KeyId = Kid k, ExpiresAt = NotAfter k\<rparr>)
                        (JwtSigningKeys b)\<rparr>))"

definition fake_ParseJWTAuthorities :: "types_JWTKey list \<Rightarrow> error + common_PublicKey list" where
  "fake_ParseJWTAuthorities ks =
     Inr (map (\<lambda>k. \<lparr>PkixBytes = PublicKey k, Kid = KeyId k, NotAfter = ExpiresAt k\<rparr>) ks)"

definition fake_ParseX509Authorities ::
  "types_X509Certificate list \<Rightarrow> error + common_Certificate list" where
  "fake_ParseX509Authorities cs = Inr (map (\<lambda>c. \<lparr>DerBytes = Asn1 c\<rparr>) cs)"

definition fake_ProtoToBundle :: "types_Bundle \<Rightarrow> error + common_Bundle" where
  "fake_ProtoToBundle b =
     (case fake_TrustDomainFromString (TrustDomain b) of
        Inl e \<Rightarrow> Inl e
      | Inr name \<Rightarrow>
          Inr \<lparr>TrustDomainId = ''spiffe://'' @ name,
               RootCas = map (\<lambda>c. \<lparr>DerBytes = Asn1 c\<rparr>) (X509Authorities b),
               JwtSigningKeys =
                 map (\<lambda>k. \<lparr>PkixBytes = PublicKey k, Kid = KeyId k, NotAfter = ExpiresAt k\<rparr>)
                   (JwtAuthorities b),
               common_RefreshHint = RefreshHint b\<rparr>)"

definition fake_RateLimit :: "nat \<Rightarrow> fake_state \<Rightarrow> error option \<times> fake_state" where
  "fake_RateLimit n x =
     (if fst x < n then (Some (StatusError codes_ResourceExhausted ''rate limit exceeded'' None), x)
      else (None, (fst x - n, snd x)))"

definition fake_lib :: "(string, fake_state) Lib" where
  "fake_lib =
     \<lparr>TrustDomainFromString = fake_TrustDomainFromString,
      Compare = (\<lambda>a b. if a = b then 0 else 1),
      IDString = (\<lambda>name. ''spiffe://'' @ name),
      BundleToProto = fake_BundleToProto,
      ProtoToBundle = fake_ProtoToBundle,
      ProtoToBundleMask =
        map_option (\<lambda>m. \<lparr>cmask_RootCas = mask_X509Authorities m,
                          cmask_JwtSigningKeys = mask_JwtAuthorities m,
                          cmask_RefreshHint = mask_RefreshHint m\<rparr>),
      ParseJWTAuthorities = fake_ParseJWTAuthorities,
      ParseX509Authorities = fake_ParseX509Authorities,
      PublicKeysToProto =
        map (\<lambda>k. \<lparr>PublicKey = PkixBytes k, KeyId = Kid k, ExpiresAt = NotAfter k\<rparr>),
      RateLimit = fake_RateLimit\<rparr>"

definition stored :: "string \<Rightarrow> fake_state \<Rightarrow> common_Bundle option" where
  "stored ident x = find (\<lambda>b. TrustDomainId b = ident) (snd x)"

definition upsert :: "common_Bundle \<Rightarrow> fake_state \<Rightarrow> fake_state" where
  "upsert b x = (fst x, filter (\<lambda>c. TrustDomainId c \<noteq> TrustDomainId b) (snd x) @ [b])"

definition fake_ds :: "fake_state DataStore" where
  "fake_ds =
     \<lparr>ds_FetchBundle = (\<lambda>ident x. ((stored ident x, None), x)),
      ds_ListBundles = (\<lambda>p x. ((\<lparr>Bundles = snd x, Pagination = p\<rparr>, None), x)),
      ds_CreateBundle =
        (\<lambda>b x. if stored (TrustDomainId b) x \<noteq> None
                then ((None, Some (StatusError codes_AlreadyExists ''bundle already exists'' None)), x)
                else ((Some b, None), upsert b x)),
      ds_UpdateBundle =
        (\<lambda>b m x. if stored (TrustDomainId b) x = None
                  then ((None, Some (StatusError codes_NotFound ''no such bundle'' None)), x)
                  else ((Some b, None), upsert b x)),
      ds_SetBundle = (\<lambda>b x. ((Some b, None), upsert b x)),
      ds_AppendBundle = (\<lambda>b x. ((Some b, None), upsert b x)),
      ds_DeleteBundle =
        (\<lambda>ident m x.
           if stored ident x = None
           then (Some (StatusError codes_NotFound ''no such bundle'' None), x)
           else if m = DeleteBundleRequest_RESTRICT
           then (Some (StatusError codes_FailedPrecondition
                   ''cannot delete bundle; federated with registration entries'' None), x)
           else (None, (fst x, filter (\<lambda>c. TrustDomainId c \<noteq> ident) (snd x))))\<rparr>"

definition fake_service :: "(string, fake_state) Service" where
  "fake_service = \<lparr>ds = fake_ds, td = ''example.org'', up = (\<lambda>k x. (([k], None), x))\<rparr>"

definition bundle_of :: "string \<Rightarrow> types_Bundle" where
  "bundle_of name =
     \<lparr>TrustDomain = name, RefreshHint = 60, SequenceNumber = 7,
      X509Authorities = [\<lparr>Asn1 = [1, 2]\<rparr>], JwtAuthorities = []\<rparr>"

definition stored_bundle :: "string \<Rightarrow> common_Bundle" where
  "stored_bundle ident =
     \<lparr>TrustDomainId = ident, RootCas = [\<lparr>DerBytes = [1, 2]\<rparr>], JwtSigningKeys = [],
      common_RefreshHint = 60\<rparr>"

definition world0 :: "fake_state world" where
  "world0 = \<lparr>ext = (0, [stored_bundle ''spiffe://example.org'', stored_bundle ''spiffe://a.test'']),
             calls = []\<rparr>"

text \<open>
  A datastore that is down: every call fails with the error given and changes nothing.
  And a world in which the datastore holds a bundle whose trust-domain id does not parse.
\<close>

definition broken_ds :: "error \<Rightarrow> fake_state DataStore" where
  "broken_ds e =
     \<lparr>ds_FetchBundle = (\<lambda>ident x. ((None, Some e), x)),
      ds_ListBundles = (\<lambda>p x. ((\<lparr>Bundles = [], Pagination = None\<rparr>, Some e), x)),
      ds_CreateBundle = (\<lambda>b x. ((None, Some e), x)),
      ds_UpdateBundle = (\<lambda>b m x. ((None, Some e), x)),
      ds_SetBundle = (\<lambda>b x. ((None, Some e), x)),
      ds_AppendBundle = (\<lambda>b x. ((None, Some e), x)),
      ds_DeleteBundle = (\<lambda>ident m x. (Some e, x))\<rparr>"

definition broken_service :: "(string, fake_state) Service" where
  "broken_service =
     \<lparr>ds = broken_ds (PlainError ''connection refused''), td = ''example.org'',
      up = (\<lambda>k x. (([k], None), x))\<rparr>"

definition world1 :: "fake_state world" where
  "world1 = \<lparr>ext = (0, [stored_bundle ''spiffe://a.test'', stored_bundle ''spiffe://'',
                         stored_bundle ''spiffe://b.test'']),
             calls = []\<rparr>"

section \<open>Properties\<close>

text \<open>
  C8. Projecting a bundle through an absent mask returns the bundle unchanged.
\<close>

theorem applyBundleMask_absent: "applyBundleMask b None = b"
  by (simp add: applyBundleMask_def)


text \<open>
  C9. For a present mask, each of the four fields whose selector is unset is its zero
  value in the projected bundle (refresh hint 0, sequence number 0, no X.509 authorities,
  no JWT authorities), and each field whose selector is set is the field of the bundle
  given. The trust domain is never touched.
\<close>

theorem applyBundleMask_present:
  "TrustDomain (applyBundleMask b (Some m)) = TrustDomain b \<and>
   RefreshHint (applyBundleMask b (Some m)) = (if mask_RefreshHint m then RefreshHint b else 0) \<and>
   SequenceNumber (applyBundleMask b (Some m)) =
     (if mask_SequenceNumber m then SequenceNumber b else 0) \<and>
   X509Authorities (applyBundleMask b (Some m)) =
     (if mask_X509Authorities m then X509Authorities b else []) \<and>
   JwtAuthorities (applyBundleMask b (Some m)) =
     (if mask_JwtAuthorities m then JwtAuthorities b else [])"
  by (simp add: applyBundleMask_def Let_def)

text \<open>
  C7. An \<open>AppendBundle\<close> request whose X.509 and JWT authority lists are both empty
  fails with InvalidArgument and the message "no authorities to append"; the world,
  and with it the log of calls to the datastore, is as it was.
\<close>

theorem AppendBundle_no_authorities:
  assumes "ab_X509Authorities req = []" and "ab_JwtAuthorities req = []"
  shows "AppendBundle lib s req w =
           (Inl (MakeErr codes_InvalidArgument ''no authorities to append'' None), w) \<and>
         failure_code (fst (AppendBundle lib s req w)) = Some codes_InvalidArgument"
  using assms by (simp add: AppendBundle_def failure_code_def MakeErr_def)

theorem AppendBundle_no_authorities_witness:
  "AppendBundle fake_lib fake_service
     \<lparr>ab_X509Authorities = [], ab_JwtAuthorities = [], ab_OutputMask = None\<rparr> world0 =
     (Inl (StatusError 3 ''no authorities to append'' None), world0)"
  using AppendBundle_no_authorities
    [of "\<lparr>ab_X509Authorities = [], ab_JwtAuthorities = [], ab_OutputMask = None\<rparr>"
        fake_lib fake_service world0]
  by (simp add: MakeErr_def codes_InvalidArgument_def)

text \<open>
  C6. When the rate limiter denies a \<open>PublishJWTAuthority\<close> call, the call fails with
  the status code of the limiter's error, whatever it is, and the only call made to a
  collaborator is the one to the limiter: the publisher is not invoked.
\<close>

theorem PublishJWTAuthority_rate_limited:
  assumes "RateLimit lib 1 (ext w) = (Some err, x')"
  shows "PublishJWTAuthority lib s req w =
           (Inl (MakeErr (status_Code (Some err))
                   ''rejecting request due to key publishing rate limiting'' (Some err)),
            \<lparr>ext = x', calls = calls w @ [Call_RateLimit 1]\<rparr>) \<and>
         failure_code (fst (PublishJWTAuthority lib s req w)) = Some (status_Code (Some err))"
  using assms
  by (simp add: PublishJWTAuthority_def invoke_def failure_code_def MakeErr_def)

theorem PublishJWTAuthority_rate_limited_witness:
  "RateLimit fake_lib 1 (ext world0) =
     (Some (StatusError codes_ResourceExhausted ''rate limit exceeded'' None), ext world0) \<and>
   failure_code (fst (PublishJWTAuthority fake_lib fake_service
      \<lparr>pja_JwtAuthority = Some \<lparr>PublicKey = [1], KeyId = ''k'', ExpiresAt = 0\<rparr>\<rparr> world0)) =
     Some codes_ResourceExhausted \<and>
   calls (snd (PublishJWTAuthority fake_lib fake_service
      \<lparr>pja_JwtAuthority = Some \<lparr>PublicKey = [1], KeyId = ''k'', ExpiresAt = 0\<rparr>\<rparr> world0)) =
     [Call_RateLimit 1]"
proof -
  have h: "RateLimit fake_lib 1 (ext world0) =
     (Some (StatusError codes_ResourceExhausted ''rate limit exceeded'' None), ext world0)"
    by (simp add: fake_lib_def fake_RateLimit_def world0_def)
  from PublishJWTAuthority_rate_limited [OF h, of fake_service
      "\<lparr>pja_JwtAuthority = Some \<lparr>PublicKey = [1], KeyId = ''k'', ExpiresAt = 0\<rparr>\<rparr>"] h
  show ?thesis
    by (simp add: world0_def failure_code_def MakeErr_def)
qed

text \<open>
  C4. \<open>parseDeleteMode\<close> maps RESTRICT, DISSOCIATE and DELETE to the datastore's modes
  of the same name and returns no error for exactly these three values; for every other
  value it returns an error that carries the mode it was given. For such a mode
  \<open>BatchDeleteFederatedBundle\<close> fails as a whole with one InvalidArgument error, returns
  no per-item result and leaves the world, and with it the log of datastore calls, as
  it was, whatever the trust domains of the request.
\<close>

theorem parseDeleteMode_modes:
  "parseDeleteMode BatchDeleteFederatedBundleRequest_RESTRICT =
     (DeleteBundleRequest_RESTRICT, None) \<and>
   parseDeleteMode BatchDeleteFederatedBundleRequest_DISSOCIATE =
     (DeleteBundleRequest_DISSOCIATE, None) \<and>
   parseDeleteMode BatchDeleteFederatedBundleRequest_DELETE =
     (DeleteBundleRequest_DELETE, None) \<and>
   (snd (parseDeleteMode m) = None) =
     (m \<in> {BatchDeleteFederatedBundleRequest_RESTRICT,
            BatchDeleteFederatedBundleRequest_DISSOCIATE,
            BatchDeleteFederatedBundleRequest_DELETE}) \<and>
   (m \<notin> {BatchDeleteFederatedBundleRequest_RESTRICT,
          BatchDeleteFederatedBundleRequest_DISSOCIATE,
          BatchDeleteFederatedBundleRequest_DELETE} \<longrightarrow>
      parseDeleteMode m = (DeleteBundleRequest_RESTRICT, Some (UnhandledDeleteMode m)) \<and>
      BatchDeleteFederatedBundle lib s \<lparr>bd_Mode = m, bd_TrustDomains = tds\<rparr> w =
        (Inl (MakeErr codes_InvalidArgument ''failed to parse deletion mode''
                (Some (UnhandledDeleteMode m))), w) \<and>
      failure_code (fst (BatchDeleteFederatedBundle lib s
                           \<lparr>bd_Mode = m, bd_TrustDomains = tds\<rparr> w)) =
        Some codes_InvalidArgument)"
  by (simp add: parseDeleteMode_def BatchDeleteFederatedBundle_def mode_defs failure_code_def
      MakeErr_def)

theorem parseDeleteMode_modes_witness:
  "parseDeleteMode 7 = (DeleteBundleRequest_RESTRICT, Some (UnhandledDeleteMode 7)) \<and>
   BatchDeleteFederatedBundle fake_lib fake_service
     \<lparr>bd_Mode = 7, bd_TrustDomains = [''a.test'', ''b.test'']\<rparr> world0 =
     (Inl (StatusError 3 ''failed to parse deletion mode'' (Some (UnhandledDeleteMode 7))),
      world0)"
  using parseDeleteMode_modes [of 7 fake_lib fake_service "[''a.test'', ''b.test'']" world0]
  by (simp add: mode_defs MakeErr_def codes_InvalidArgument_def)


subsection \<open>Values of the test double's parser\<close>

lemma fake_TrustDomainFromString_values:
  "fake_TrustDomainFromString ''spiffe://a.test'' = Inr ''a.test''"
  "fake_TrustDomainFromString ''spiffe://example.org'' = Inr ''example.org''"
  "fake_TrustDomainFromString ''spiffe://b.test'' = Inr ''b.test''"
  "fake_TrustDomainFromString ''spiffe://'' = Inl (PlainError ''trust domain is not valid'')"
  "fake_TrustDomainFromString ''a.test'' = Inr ''a.test''"
  "fake_TrustDomainFromString ''b.test'' = Inr ''b.test''"
  "fake_TrustDomainFromString ''example.org'' = Inr ''example.org''"
  by (simp_all add: fake_TrustDomainFromString_def)

subsection \<open>The server's own trust domain\<close>

text \<open>
  C1. Whenever the trust-domain identifier of the input parses and compares equal to the
  server's own trust domain, \<open>GetFederatedBundle\<close> fails with InvalidArgument and the
  handlers of the create, update, set and delete batches return a result whose status
  code is InvalidArgument (and, for the first three, no bundle). In each case the world
  after the call is the world before it: the state of the collaborators is untouched
  and the log of calls has no new entry, so the datastore was not called.
\<close>

theorem own_trust_domain_rejected:
  assumes "TrustDomainFromString lib name = Inr tdom" and "Compare lib (td s) tdom = 0"
  shows
    "failure_code (fst (GetFederatedBundle lib s
        \<lparr>gfb_TrustDomain = name, gfb_OutputMask = outputMask\<rparr> w)) = Some codes_InvalidArgument \<and>
     snd (GetFederatedBundle lib s
        \<lparr>gfb_TrustDomain = name, gfb_OutputMask = outputMask\<rparr> w) = w \<and>
     (TrustDomain b = name \<longrightarrow>
        Code (Status (fst (createFederatedBundle lib s b outputMask w))) = codes_InvalidArgument \<and>
        Bundle (fst (createFederatedBundle lib s b outputMask w)) = None \<and>
        snd (createFederatedBundle lib s b outputMask w) = w \<and>
        Code (Status (fst (updateFederatedBundle lib s b inputMask outputMask w))) =
          codes_InvalidArgument \<and>
        Bundle (fst (updateFederatedBundle lib s b inputMask outputMask w)) = None \<and>
        snd (updateFederatedBundle lib s b inputMask outputMask w) = w \<and>
        Code (Status (fst (setFederatedBundle lib s b outputMask w))) = codes_InvalidArgument \<and>
        Bundle (fst (setFederatedBundle lib s b outputMask w)) = None \<and>
        snd (setFederatedBundle lib s b outputMask w) = w) \<and>
     Code (del_Status (fst (deleteFederatedBundle lib s name dmode w))) = codes_InvalidArgument \<and>
     snd (deleteFederatedBundle lib s name dmode w) = w"
  using assms
  by (simp add: GetFederatedBundle_def createFederatedBundle_def updateFederatedBundle_def
      setFederatedBundle_def deleteFederatedBundle_def failure_code_def MakeErr_def
      MakeStatus_def)

theorem own_trust_domain_rejected_witness:
  "TrustDomainFromString fake_lib ''example.org'' = Inr ''example.org'' \<and>
   Compare fake_lib (td fake_service) ''example.org'' = 0 \<and>
   failure_code (fst (GetFederatedBundle fake_lib fake_service
      \<lparr>gfb_TrustDomain = ''example.org'', gfb_OutputMask = None\<rparr> world0)) =
     Some codes_InvalidArgument \<and>
   snd (createFederatedBundle fake_lib fake_service (bundle_of ''example.org'') None world0) =
     world0 \<and>
   Code (del_Status (fst (deleteFederatedBundle fake_lib fake_service ''example.org''
      DeleteBundleRequest_DELETE world0))) = codes_InvalidArgument"
proof -
  have p: "TrustDomainFromString fake_lib ''example.org'' = Inr ''example.org''"
    by (simp add: fake_lib_def fake_TrustDomainFromString_def)
  have c: "Compare fake_lib (td fake_service) ''example.org'' = 0"
    by (simp add: fake_lib_def fake_service_def)
  from own_trust_domain_rejected [OF p c, where b = "bundle_of ''example.org''"
      and outputMask = None and inputMask = None and w = world0
      and dmode = DeleteBundleRequest_DELETE] p c
  show ?thesis by (simp add: bundle_of_def)
qed

subsection \<open>Batches\<close>

lemma batch_loop_length:
  "batch_loop h xs acc w = (rs, w') \<Longrightarrow> length rs = length acc + length xs"
  by (induction xs arbitrary: acc w) (auto split: prod.splits)

lemma batch_loop_prefix:
  "batch_loop h xs acc w = (rs, w') \<Longrightarrow> take (length acc) rs = acc"
proof (induction xs arbitrary: acc w)
  case Nil
  then show ?case by simp
next
  case (Cons x xs)
  obtain r w1 where h: "h x w = (r, w1)" by (cases "h x w")
  from Cons.prems h have "batch_loop h xs (acc @ [r]) w1 = (rs, w')" by simp
  from Cons.IH [OF this] have "take (Suc (length acc)) rs = acc @ [r]" by simp
  then have "take (length acc) (take (Suc (length acc)) rs) = take (length acc) (acc @ [r])"
    by simp
  then show ?case by (simp add: min_def)
qed

lemma batch_loop_nth:
  "batch_loop h xs acc w = (rs, w') \<Longrightarrow> i < length xs \<Longrightarrow>
     rs ! (length acc + i) = fst (h (xs ! i) (world_before h xs w i))"
proof (induction xs arbitrary: acc w i)
  case Nil
  then show ?case by simp
next
  case (Cons x xs)
  obtain r w1 where h: "h x w = (r, w1)" by (cases "h x w")
  from Cons.prems(1) h have rec: "batch_loop h xs (acc @ [r]) w1 = (rs, w')" by simp
  show ?case
  proof (cases i)
    case 0
    from batch_loop_prefix [OF rec] have "take (Suc (length acc)) rs = acc @ [r]" by simp
    then have "rs ! length acc = (acc @ [r]) ! length acc"
      by (metis lessI nth_take)
    with 0 h show ?thesis by simp
  next
    case (Suc j)
    with Cons.prems(2) have j: "j < length xs" by simp
    from Cons.IH [OF rec j] Suc h show ?thesis by simp
  qed
qed


lemma batch_loop_results:
  "\<exists>rs w'. batch_loop h xs [] w = (rs, w') \<and> length rs = length xs \<and>
     (\<forall>i<length xs. rs ! i = fst (h (xs ! i) (world_before h xs w i)))"
proof -
  obtain rs w' where run: "batch_loop h xs [] w = (rs, w')" by (cases "batch_loop h xs [] w")
  from batch_loop_length [OF run] have "length rs = length xs" by simp
  moreover from batch_loop_nth [OF run]
  have "\<forall>i<length xs. rs ! i = fst (h (xs ! i) (world_before h xs w i))" by simp
  ultimately show ?thesis using run by (intro exI conjI)
qed

text \<open>
  C2, as amended. The create, update and set batches, and the delete batch whenever the
  mode of its request parses, return a list with exactly one result per input item, and
  result \<open>i\<close> is what the per-item handler returns for item \<open>i\<close>, run in the world the
  handlers of the items before it have left. The handler is total and its failure is a
  status inside its result, so no item's failure takes a result away from another item.
\<close>

theorem batch_one_result_per_item:
  "(\<exists>rs w'. BatchCreateFederatedBundle lib s creq w = (Inr rs, w') \<and>
      length rs = length (bc_Bundle creq) \<and>
      (\<forall>i<length (bc_Bundle creq).
         rs ! i = fst (createFederatedBundle lib s (bc_Bundle creq ! i) (bc_OutputMask creq)
                    (world_before (\<lambda>b. createFederatedBundle lib s b (bc_OutputMask creq))
                       (bc_Bundle creq) w i)))) \<and>
   (\<exists>rs w'. BatchUpdateFederatedBundle lib s ureq w = (Inr rs, w') \<and>
      length rs = length (bu_Bundle ureq) \<and>
      (\<forall>i<length (bu_Bundle ureq).
         rs ! i = fst (updateFederatedBundle lib s (bu_Bundle ureq ! i) (bu_InputMask ureq)
                    (bu_OutputMask ureq)
                    (world_before
                       (\<lambda>b. updateFederatedBundle lib s b (bu_InputMask ureq) (bu_OutputMask ureq))
                       (bu_Bundle ureq) w i)))) \<and>
   (\<exists>rs w'. BatchSetFederatedBundle lib s sreq w = (Inr rs, w') \<and>
      length rs = length (bs_Bundle sreq) \<and>
      (\<forall>i<length (bs_Bundle sreq).
         rs ! i = fst (setFederatedBundle lib s (bs_Bundle sreq ! i) (bs_OutputMask sreq)
                    (world_before (\<lambda>b. setFederatedBundle lib s b (bs_OutputMask sreq))
                       (bs_Bundle sreq) w i)))) \<and>
   (parseDeleteMode (bd_Mode dreq) = (dmode, None) \<longrightarrow>
    (\<exists>rs w'. BatchDeleteFederatedBundle lib s dreq w = (Inr rs, w') \<and>
      length rs = length (bd_TrustDomains dreq) \<and>
      (\<forall>i<length (bd_TrustDomains dreq).
         rs ! i = fst (deleteFederatedBundle lib s (bd_TrustDomains dreq ! i) dmode
                    (world_before (\<lambda>t. deleteFederatedBundle lib s t dmode)
                       (bd_TrustDomains dreq) w i)))))"
proof (intro conjI impI)
  from batch_loop_results
    [of "\<lambda>b. createFederatedBundle lib s b (bc_OutputMask creq)" "bc_Bundle creq" w]
  show "\<exists>rs w'. BatchCreateFederatedBundle lib s creq w = (Inr rs, w') \<and>
      length rs = length (bc_Bundle creq) \<and>
      (\<forall>i<length (bc_Bundle creq).
         rs ! i = fst (createFederatedBundle lib s (bc_Bundle creq ! i) (bc_OutputMask creq)
                    (world_before (\<lambda>b. createFederatedBundle lib s b (bc_OutputMask creq))
                       (bc_Bundle creq) w i)))"
    by (auto simp: BatchCreateFederatedBundle_def)
next
  from batch_loop_results
    [of "\<lambda>b. updateFederatedBundle lib s b (bu_InputMask ureq) (bu_OutputMask ureq)"
        "bu_Bundle ureq" w]
  show "\<exists>rs w'. BatchUpdateFederatedBundle lib s ureq w = (Inr rs, w') \<and>
      length rs = length (bu_Bundle ureq) \<and>
      (\<forall>i<length (bu_Bundle ureq).
         rs ! i = fst (updateFederatedBundle lib s (bu_Bundle ureq ! i) (bu_InputMask ureq)
                    (bu_OutputMask ureq)
                    (world_before
                       (\<lambda>b. updateFederatedBundle lib s b (bu_InputMask ureq) (bu_OutputMask ureq))
                       (bu_Bundle ureq) w i)))"
    by (auto simp: BatchUpdateFederatedBundle_def)
next
  from batch_loop_results
    [of "\<lambda>b. setFederatedBundle lib s b (bs_OutputMask sreq)" "bs_Bundle sreq" w]
  show "\<exists>rs w'. BatchSetFederatedBundle lib s sreq w = (Inr rs, w') \<and>
      length rs = length (bs_Bundle sreq) \<and>
      (\<forall>i<length (bs_Bundle sreq).
         rs ! i = fst (setFederatedBundle lib s (bs_Bundle sreq ! i) (bs_OutputMask sreq)
                    (world_before (\<lambda>b. setFederatedBundle lib s b (bs_OutputMask sreq))
                       (bs_Bundle sreq) w i)))"
    by (auto simp: BatchSetFederatedBundle_def)
next
  assume "parseDeleteMode (bd_Mode dreq) = (dmode, None)"
  with batch_loop_results
    [of "\<lambda>t. deleteFederatedBundle lib s t dmode" "bd_TrustDomains dreq" w]
  show "\<exists>rs w'. BatchDeleteFederatedBundle lib s dreq w = (Inr rs, w') \<and>
      length rs = length (bd_TrustDomains dreq) \<and>
      (\<forall>i<length (bd_TrustDomains dreq).
         rs ! i = fst (deleteFederatedBundle lib s (bd_TrustDomains dreq ! i) dmode
                    (world_before (\<lambda>t. deleteFederatedBundle lib s t dmode)
                       (bd_TrustDomains dreq) w i)))"
    by (auto simp: BatchDeleteFederatedBundle_def)
qed

theorem batch_one_result_per_item_witness:
  "(\<exists>rs w'. BatchCreateFederatedBundle fake_lib fake_service
       \<lparr>bc_Bundle = [bundle_of ''a.test'', bundle_of ''b.test''], bc_OutputMask = None\<rparr> world0 =
       (Inr rs, w') \<and>
     length rs = 2 \<and>
     Code (Status (rs ! 0)) = codes_AlreadyExists \<and>
     Code (Status (rs ! 1)) = codes_OK) \<and>
   parseDeleteMode BatchDeleteFederatedBundleRequest_RESTRICT =
     (DeleteBundleRequest_RESTRICT, None) \<and>
   (\<exists>rs w'. BatchDeleteFederatedBundle fake_lib fake_service
       \<lparr>bd_Mode = BatchDeleteFederatedBundleRequest_RESTRICT,
        bd_TrustDomains = [''a.test'', ''b.test'']\<rparr> world0 = (Inr rs, w') \<and>
     length rs = 2 \<and>
     Code (del_Status (rs ! 0)) = codes_FailedPrecondition \<and>
     Code (del_Status (rs ! 1)) = codes_NotFound)"
proof -
  let ?creq = "\<lparr>bc_Bundle = [bundle_of ''a.test'', bundle_of ''b.test''], bc_OutputMask = None\<rparr>"
  let ?dreq = "\<lparr>bd_Mode = BatchDeleteFederatedBundleRequest_RESTRICT,
                bd_TrustDomains = [''a.test'', ''b.test'']\<rparr>"
  note defs = createFederatedBundle_def deleteFederatedBundle_def invoke_def fake_lib_def
    fake_service_def fake_ds_def world0_def stored_def upsert_def stored_bundle_def bundle_of_def
    fake_ProtoToBundle_def fake_BundleToProto_def fake_TrustDomainFromString_def
    MakeStatus_def api_OK_def applyBundleMask_def Let_def codes_defs
  have m: "parseDeleteMode (bd_Mode ?dreq) = (DeleteBundleRequest_RESTRICT, None)"
    by (simp add: parseDeleteMode_def)
  note inst = batch_one_result_per_item [of fake_lib fake_service ?creq world0 _ _ ?dreq
      DeleteBundleRequest_RESTRICT]
  from inst obtain rs w' where
    run: "BatchCreateFederatedBundle fake_lib fake_service ?creq world0 = (Inr rs, w')" and
    len: "length rs = length (bc_Bundle ?creq)" and
    nth: "\<forall>i<length (bc_Bundle ?creq).
            rs ! i = fst (createFederatedBundle fake_lib fake_service (bc_Bundle ?creq ! i)
                       (bc_OutputMask ?creq)
                       (world_before
                          (\<lambda>b. createFederatedBundle fake_lib fake_service b (bc_OutputMask ?creq))
                          (bc_Bundle ?creq) world0 i))"
    by blast
  have c0: "Code (Status (fst (createFederatedBundle fake_lib fake_service (bundle_of ''a.test'')
      None world0))) = codes_AlreadyExists"
    by (simp add: defs)
  have c1: "Code (Status (fst (createFederatedBundle fake_lib fake_service (bundle_of ''b.test'')
      None (snd (createFederatedBundle fake_lib fake_service (bundle_of ''a.test'') None
        world0))))) = codes_OK"
    by (simp add: defs)
  from nth have "rs ! 0 =
      fst (createFederatedBundle fake_lib fake_service (bundle_of ''a.test'') None world0)"
    by simp
  with c0 have "Code (Status (rs ! 0)) = codes_AlreadyExists" by simp
  moreover from nth have "rs ! Suc 0 =
      fst (createFederatedBundle fake_lib fake_service (bundle_of ''b.test'') None
        (snd (createFederatedBundle fake_lib fake_service (bundle_of ''a.test'') None world0)))"
    by simp
  with c1 have "Code (Status (rs ! 1)) = codes_OK" by simp
  ultimately have A: "\<exists>rs w'. BatchCreateFederatedBundle fake_lib fake_service ?creq world0 =
       (Inr rs, w') \<and> length rs = 2 \<and> Code (Status (rs ! 0)) = codes_AlreadyExists \<and>
       Code (Status (rs ! 1)) = codes_OK"
    using run len by simp
  from inst m obtain drs v' where
    drun: "BatchDeleteFederatedBundle fake_lib fake_service ?dreq world0 = (Inr drs, v')" and
    dlen: "length drs = length (bd_TrustDomains ?dreq)" and
    dnth: "\<forall>i<length (bd_TrustDomains ?dreq).
            drs ! i = fst (deleteFederatedBundle fake_lib fake_service (bd_TrustDomains ?dreq ! i)
                       DeleteBundleRequest_RESTRICT
                       (world_before
                          (\<lambda>t. deleteFederatedBundle fake_lib fake_service t
                                 DeleteBundleRequest_RESTRICT)
                          (bd_TrustDomains ?dreq) world0 i))"
    by blast
  have d0: "Code (del_Status (fst (deleteFederatedBundle fake_lib fake_service ''a.test''
      DeleteBundleRequest_RESTRICT world0))) = codes_FailedPrecondition"
    by (simp add: defs)
  have d1: "Code (del_Status (fst (deleteFederatedBundle fake_lib fake_service ''b.test''
      DeleteBundleRequest_RESTRICT (snd (deleteFederatedBundle fake_lib fake_service ''a.test''
        DeleteBundleRequest_RESTRICT world0))))) = codes_NotFound"
    by (simp add: defs)
  from dnth have "drs ! 0 =
      fst (deleteFederatedBundle fake_lib fake_service ''a.test'' DeleteBundleRequest_RESTRICT
        world0)"
    by simp
  with d0 have "Code (del_Status (drs ! 0)) = codes_FailedPrecondition" by simp
  moreover from dnth have "drs ! Suc 0 =
      fst (deleteFederatedBundle fake_lib fake_service ''b.test'' DeleteBundleRequest_RESTRICT
        (snd (deleteFederatedBundle fake_lib fake_service ''a.test''
           DeleteBundleRequest_RESTRICT world0)))"
    by simp
  with d1 have "Code (del_Status (drs ! 1)) = codes_NotFound" by simp
  ultimately have B: "\<exists>rs w'. BatchDeleteFederatedBundle fake_lib fake_service ?dreq world0 =
       (Inr rs, w') \<and> length rs = 2 \<and> Code (del_Status (rs ! 0)) = codes_FailedPrecondition \<and>
       Code (del_Status (rs ! 1)) = codes_NotFound"
    using drun dlen by simp
  from A B m show ?thesis by simp
qed

text \<open>
  C2 as stated fails for \<open>BatchDeleteFederatedBundle\<close>. With the unhandled mode 7 and
  two trust domains the call returns one InvalidArgument error and no result list, so
  there is no result list of length 2; the world is as it was, so no handler has run.
\<close>

theorem BatchDeleteFederatedBundle_unhandled_mode_counterexample:
  "length (bd_TrustDomains \<lparr>bd_Mode = 7, bd_TrustDomains = [''a.test'', ''b.test'']\<rparr>) = 2 \<and>
   snd (parseDeleteMode 7) \<noteq> None \<and>
   BatchDeleteFederatedBundle fake_lib fake_service
     \<lparr>bd_Mode = 7, bd_TrustDomains = [''a.test'', ''b.test'']\<rparr> world0 =
     (Inl (MakeErr codes_InvalidArgument ''failed to parse deletion mode''
             (Some (UnhandledDeleteMode 7))), world0) \<and>
   isl (fst (BatchDeleteFederatedBundle fake_lib fake_service
     \<lparr>bd_Mode = 7, bd_TrustDomains = [''a.test'', ''b.test'']\<rparr> world0))"
  by (simp add: BatchDeleteFederatedBundle_def parseDeleteMode_def mode_defs)

subsection \<open>Storage failures\<close>

text \<open>
  C3, as amended. When the handler of a create, update or set batch reaches its datastore
  call and the call returns an error whose status code is none of OK, NotFound and
  AlreadyExists, the item's status has code Internal and carries that error as its
  cause. The handler of the delete batch does not translate: for a datastore error whose
  code is neither OK nor NotFound, the item's status has the code of the datastore's
  error itself, with that error as its cause.
\<close>

theorem storage_failure_status:
  "(TrustDomainFromString lib (TrustDomain b) = Inr tdom \<and> Compare lib (td s) tdom \<noteq> 0 \<and>
    ProtoToBundle lib b = Inr dsBundle \<and>
    ds_CreateBundle (ds s) dsBundle (ext w) = ((cresp, cerr), cx) \<and>
    status_Code cerr \<notin> {codes_OK, codes_NotFound, codes_AlreadyExists} \<longrightarrow>
      Code (Status (fst (createFederatedBundle lib s b outputMask w))) = codes_Internal \<and>
      Cause (Status (fst (createFederatedBundle lib s b outputMask w))) = cerr) \<and>
   (TrustDomainFromString lib (TrustDomain b) = Inr tdom \<and> Compare lib (td s) tdom \<noteq> 0 \<and>
    ProtoToBundle lib b = Inr dsBundle \<and>
    ds_UpdateBundle (ds s) dsBundle (ProtoToBundleMask lib inputMask) (ext w) =
      ((uresp, uerr), ux) \<and>
    status_Code uerr \<notin> {codes_OK, codes_NotFound, codes_AlreadyExists} \<longrightarrow>
      Code (Status (fst (updateFederatedBundle lib s b inputMask outputMask w))) =
        codes_Internal \<and>
      Cause (Status (fst (updateFederatedBundle lib s b inputMask outputMask w))) = uerr) \<and>
   (TrustDomainFromString lib (TrustDomain b) = Inr tdom \<and> Compare lib (td s) tdom \<noteq> 0 \<and>
    ProtoToBundle lib b = Inr dsBundle \<and>
    ds_SetBundle (ds s) dsBundle (ext w) = ((sresp, serr), sx) \<and>
    status_Code serr \<notin> {codes_OK, codes_NotFound, codes_AlreadyExists} \<longrightarrow>
      Code (Status (fst (setFederatedBundle lib s b outputMask w))) = codes_Internal \<and>
      Cause (Status (fst (setFederatedBundle lib s b outputMask w))) = serr) \<and>
   (TrustDomainFromString lib trustDomain = Inr tdom \<and> Compare lib (td s) tdom \<noteq> 0 \<and>
    ds_DeleteBundle (ds s) (IDString lib tdom) dmode (ext w) = (derr, dx) \<and>
    status_Code derr \<notin> {codes_OK, codes_NotFound} \<longrightarrow>
      Code (del_Status (fst (deleteFederatedBundle lib s trustDomain dmode w))) =
        status_Code derr \<and>
      Cause (del_Status (fst (deleteFederatedBundle lib s trustDomain dmode w))) = derr)"
proof (intro conjI impI)
  assume "TrustDomainFromString lib (TrustDomain b) = Inr tdom \<and> Compare lib (td s) tdom \<noteq> 0 \<and>
    ProtoToBundle lib b = Inr dsBundle \<and>
    ds_CreateBundle (ds s) dsBundle (ext w) = ((cresp, cerr), cx) \<and>
    status_Code cerr \<notin> {codes_OK, codes_NotFound, codes_AlreadyExists}"
  then have r: "Status (fst (createFederatedBundle lib s b outputMask w)) =
      MakeStatus codes_Internal ''unable to create bundle'' cerr"
    by (simp add: createFederatedBundle_def invoke_def)
  show "Code (Status (fst (createFederatedBundle lib s b outputMask w))) = codes_Internal"
    by (simp add: r MakeStatus_def)
  show "Cause (Status (fst (createFederatedBundle lib s b outputMask w))) = cerr"
    by (simp add: r MakeStatus_def)
next
  assume "TrustDomainFromString lib (TrustDomain b) = Inr tdom \<and> Compare lib (td s) tdom \<noteq> 0 \<and>
    ProtoToBundle lib b = Inr dsBundle \<and>
    ds_UpdateBundle (ds s) dsBundle (ProtoToBundleMask lib inputMask) (ext w) =
      ((uresp, uerr), ux) \<and>
    status_Code uerr \<notin> {codes_OK, codes_NotFound, codes_AlreadyExists}"
  then have r: "Status (fst (updateFederatedBundle lib s b inputMask outputMask w)) =
      MakeStatus codes_Internal ''failed to update bundle'' uerr"
    by (simp add: updateFederatedBundle_def invoke_def Let_def)
  show "Code (Status (fst (updateFederatedBundle lib s b inputMask outputMask w))) =
      codes_Internal"
    by (simp add: r MakeStatus_def)
  show "Cause (Status (fst (updateFederatedBundle lib s b inputMask outputMask w))) = uerr"
    by (simp add: r MakeStatus_def)
next
  assume a: "TrustDomainFromString lib (TrustDomain b) = Inr tdom \<and>
    Compare lib (td s) tdom \<noteq> 0 \<and>
    ProtoToBundle lib b = Inr dsBundle \<and>
    ds_SetBundle (ds s) dsBundle (ext w) = ((sresp, serr), sx) \<and>
    status_Code serr \<notin> {codes_OK, codes_NotFound, codes_AlreadyExists}"
  then have "serr \<noteq> None" by (cases serr) simp_all
  with a have r: "Status (fst (setFederatedBundle lib s b outputMask w)) =
      MakeStatus codes_Internal ''failed to set bundle'' serr"
    by (simp add: setFederatedBundle_def invoke_def)
  show "Code (Status (fst (setFederatedBundle lib s b outputMask w))) = codes_Internal"
    by (simp add: r MakeStatus_def)
  show "Cause (Status (fst (setFederatedBundle lib s b outputMask w))) = serr"
    by (simp add: r MakeStatus_def)
next
  assume "TrustDomainFromString lib trustDomain = Inr tdom \<and> Compare lib (td s) tdom \<noteq> 0 \<and>
    ds_DeleteBundle (ds s) (IDString lib tdom) dmode (ext w) = (derr, dx) \<and>
    status_Code derr \<notin> {codes_OK, codes_NotFound}"
  then have r: "del_Status (fst (deleteFederatedBundle lib s trustDomain dmode w)) =
      MakeStatus (status_Code derr) ''failed to delete federated bundle'' derr"
    by (simp add: deleteFederatedBundle_def invoke_def Let_def)
  show "Code (del_Status (fst (deleteFederatedBundle lib s trustDomain dmode w))) =
      status_Code derr"
    by (simp add: r MakeStatus_def)
  show "Cause (del_Status (fst (deleteFederatedBundle lib s trustDomain dmode w))) = derr"
    by (simp add: r MakeStatus_def)
qed

theorem storage_failure_status_witness:
  "TrustDomainFromString fake_lib (TrustDomain (bundle_of ''b.test'')) = Inr ''b.test'' \<and>
   Compare fake_lib (td broken_service) ''b.test'' \<noteq> 0 \<and>
   status_Code (Some (PlainError ''connection refused'')) \<notin>
     {codes_OK, codes_NotFound, codes_AlreadyExists} \<and>
   Code (Status (fst (createFederatedBundle fake_lib broken_service (bundle_of ''b.test'') None
      world0))) = codes_Internal \<and>
   Code (Status (fst (updateFederatedBundle fake_lib broken_service (bundle_of ''b.test'') None
      None world0))) = codes_Internal \<and>
   Code (Status (fst (setFederatedBundle fake_lib broken_service (bundle_of ''b.test'') None
      world0))) = codes_Internal \<and>
   Code (del_Status (fst (deleteFederatedBundle fake_lib broken_service ''b.test''
      DeleteBundleRequest_DELETE world0))) = codes_Unknown"
proof -
  let ?e = "Some (PlainError ''connection refused'')"
  let ?dsb = "\<lparr>TrustDomainId = ''spiffe://b.test'', RootCas = [\<lparr>DerBytes = [1, 2]\<rparr>],
               JwtSigningKeys = [], common_RefreshHint = 60\<rparr>"
  have p: "TrustDomainFromString fake_lib (TrustDomain (bundle_of ''b.test'')) = Inr ''b.test''"
    by (simp add: fake_lib_def bundle_of_def fake_TrustDomainFromString_def)
  have p': "TrustDomainFromString fake_lib ''b.test'' = Inr ''b.test''"
    by (simp add: fake_lib_def fake_TrustDomainFromString_def)
  have c: "Compare fake_lib (td broken_service) ''b.test'' \<noteq> 0"
    by (simp add: fake_lib_def broken_service_def)
  have v: "ProtoToBundle fake_lib (bundle_of ''b.test'') = Inr ?dsb"
    by (simp add: fake_lib_def bundle_of_def fake_ProtoToBundle_def
        fake_TrustDomainFromString_def)
  have k: "status_Code ?e \<notin> {codes_OK, codes_NotFound, codes_AlreadyExists}"
    "status_Code ?e \<notin> {codes_OK, codes_NotFound}" "status_Code ?e = codes_Unknown"
    by (simp_all add: codes_defs)
  have x1: "ds_CreateBundle (ds broken_service) ?dsb (ext world0) = ((None, ?e), ext world0)"
    by (simp add: broken_service_def broken_ds_def)
  have x2: "ds_UpdateBundle (ds broken_service) ?dsb (ProtoToBundleMask fake_lib None)
              (ext world0) = ((None, ?e), ext world0)"
    by (simp add: broken_service_def broken_ds_def)
  have x3: "ds_SetBundle (ds broken_service) ?dsb (ext world0) = ((None, ?e), ext world0)"
    by (simp add: broken_service_def broken_ds_def)
  have x4: "ds_DeleteBundle (ds broken_service) (IDString fake_lib ''b.test'')
              DeleteBundleRequest_DELETE (ext world0) = (?e, ext world0)"
    by (simp add: broken_service_def broken_ds_def)
  from storage_failure_status [of fake_lib "bundle_of ''b.test''" "''b.test''" broken_service
      ?dsb world0 None ?e "ext world0" None None None ?e "ext world0" None ?e "ext world0"
      "''b.test''" DeleteBundleRequest_DELETE ?e "ext world0"]
    p p' c v k x1 x2 x3 x4
  show ?thesis by simp
qed

text \<open>
  C3 as stated fails for the delete handler. The datastore of the test double refuses to
  delete the stored bundle of \<open>a.test\<close> in RESTRICT mode with a FailedPrecondition error,
  a code that is none of OK, NotFound and AlreadyExists; the item's status code is then
  FailedPrecondition, not Internal.
\<close>

theorem deleteFederatedBundle_storage_failure_counterexample:
  "TrustDomainFromString fake_lib ''a.test'' = Inr ''a.test'' \<and>
   Compare fake_lib (td fake_service) ''a.test'' \<noteq> 0 \<and>
   status_Code (fst (ds_DeleteBundle (ds fake_service) (IDString fake_lib ''a.test'')
      DeleteBundleRequest_RESTRICT (ext world0))) = codes_FailedPrecondition \<and>
   codes_FailedPrecondition \<notin> {codes_OK, codes_NotFound, codes_AlreadyExists} \<and>
   Code (del_Status (fst (deleteFederatedBundle fake_lib fake_service ''a.test''
      DeleteBundleRequest_RESTRICT world0))) = codes_FailedPrecondition \<and>
   Code (del_Status (fst (deleteFederatedBundle fake_lib fake_service ''a.test''
      DeleteBundleRequest_RESTRICT world0))) \<noteq> codes_Internal"
  by (simp add: deleteFederatedBundle_def invoke_def fake_lib_def fake_service_def fake_ds_def
      world0_def stored_def stored_bundle_def MakeStatus_def codes_defs Let_def
      fake_TrustDomainFromString_values)

subsection \<open>Listing\<close>

lemma list_loop_success:
  "list_loop lib s om bs acc = Inr rs \<Longrightarrow>
     (\<forall>b\<in>set bs. \<exists>t. TrustDomainFromString lib (TrustDomainId b) = Inr t) \<and>
     (\<exists>pbs. map (\<lambda>b. BundleToProto lib (Some b)) (filter (is_federated lib s) bs) = map Inr pbs \<and>
            rs = acc @ map (\<lambda>pb. applyBundleMask pb om) pbs)"
proof (induction bs arbitrary: acc)
  case Nil
  then show ?case by simp
next
  case (Cons b bs)
  from Cons.prems obtain t where t: "TrustDomainFromString lib (TrustDomainId b) = Inr t"
    by (auto split: sum.splits)
  show ?case
  proof (cases "Compare lib (td s) t = 0")
    case True
    with Cons.prems t have "list_loop lib s om bs acc = Inr rs" by simp
    from Cons.IH [OF this] t True show ?thesis by (simp add: is_federated_def)
  next
    case False
    with Cons.prems t obtain pb where pb: "BundleToProto lib (Some b) = Inr pb"
      by (auto split: sum.splits)
    with Cons.prems t False have "list_loop lib s om bs (acc @ [applyBundleMask pb om]) = Inr rs"
      by simp
    from Cons.IH [OF this] obtain pbs where
      all: "\<forall>b\<in>set bs. \<exists>t. TrustDomainFromString lib (TrustDomainId b) = Inr t" and
      conv: "map (\<lambda>b. BundleToProto lib (Some b)) (filter (is_federated lib s) bs) = map Inr pbs" and
      rs: "rs = (acc @ [applyBundleMask pb om]) @ map (\<lambda>pb. applyBundleMask pb om) pbs"
      by blast
    from conv pb t False
    have c: "map (\<lambda>b. BundleToProto lib (Some b)) (filter (is_federated lib s) (b # bs)) =
          map Inr (pb # pbs)"
      by (simp add: is_federated_def)
    from rs have r: "rs = acc @ map (\<lambda>pb. applyBundleMask pb om) (pb # pbs)" by simp
    from all t have a: "\<forall>c\<in>set (b # bs). \<exists>t. TrustDomainFromString lib (TrustDomainId c) = Inr t"
      by simp
    from c r have "\<exists>qs. map (\<lambda>b. BundleToProto lib (Some b))
                      (filter (is_federated lib s) (b # bs)) = map Inr qs \<and>
                    rs = acc @ map (\<lambda>pb. applyBundleMask pb om) qs"
      by (intro exI [of _ "pb # pbs"] conjI)
    with a show ?thesis by (intro conjI)
  qed
qed

lemma list_loop_invalid:
  "b \<in> set bs \<Longrightarrow> TrustDomainFromString lib (TrustDomainId b) = Inl e \<Longrightarrow>
     \<exists>err. list_loop lib s om bs acc = Inl err \<and> status_Code (Some err) = codes_Internal"
proof (induction bs arbitrary: acc)
  case Nil
  then show ?case by simp
next
  case (Cons c bs)
  show ?case
  proof (cases "c = b")
    case True
    with Cons.prems(2) show ?thesis by (simp add: MakeErr_def)
  next
    case False
    with Cons.prems have "b \<in> set bs" by simp
    from Cons.IH [OF this Cons.prems(2)] show ?thesis
      by (simp add: MakeErr_def split: sum.splits)
  qed
qed

lemma ListFederatedBundles_unfold:
  assumes "ds_ListBundles (ds s) (list_pagination req) (ext w) = ((dsResp, err), x')"
  shows "ListFederatedBundles lib s req w =
           (if err \<noteq> None then Inl (MakeErr codes_Internal ''failed to list bundles'' err)
            else (case list_loop lib s (lfb_OutputMask req) (Bundles dsResp) [] of
                    Inl e \<Rightarrow> Inl e
                  | Inr bs \<Rightarrow>
                      Inr \<lparr>resp_Bundles = bs,
                           NextPageToken =
                             (case Pagination dsResp of None \<Rightarrow> [] | Some p \<Rightarrow> Token p)\<rparr>),
            \<lparr>ext = x', calls = calls w @ [Call_ListBundles (list_pagination req)]\<rparr>)"
proof -
  have "invoke (Call_ListBundles (list_pagination req))
          (ds_ListBundles (ds s) (list_pagination req)) w =
        ((dsResp, err), \<lparr>ext = x', calls = calls w @ [Call_ListBundles (list_pagination req)]\<rparr>)"
    using assms by (simp add: invoke_def)
  then show ?thesis
    unfolding ListFederatedBundles_def list_pagination_def [symmetric]
    by (simp add: Let_def split: sum.splits)
qed

text \<open>
  C5. When \<open>ListFederatedBundles\<close> succeeds, the datastore's list call has succeeded, the
  trust-domain id of every bundle it returned parses, and the response holds, in the
  datastore's order, the bundles among them that are federated (their trust domain is
  not the server's own), each converted by \<open>BundleToProto\<close> and projected through the
  output mask of the request. The next-page token of the response is the token of the
  datastore's pagination, and empty when the datastore returned no pagination.
\<close>

theorem ListFederatedBundles_success:
  assumes "ListFederatedBundles lib s req w = (Inr resp, w')"
  shows "\<exists>dsResp x' pbs.
           ds_ListBundles (ds s) (list_pagination req) (ext w) = ((dsResp, None), x') \<and>
           (\<forall>b\<in>set (Bundles dsResp). \<exists>t. TrustDomainFromString lib (TrustDomainId b) = Inr t) \<and>
           map (\<lambda>b. BundleToProto lib (Some b)) (filter (is_federated lib s) (Bundles dsResp)) =
             map Inr pbs \<and>
           resp_Bundles resp = map (\<lambda>pb. applyBundleMask pb (lfb_OutputMask req)) pbs \<and>
           NextPageToken resp = (case Pagination dsResp of None \<Rightarrow> [] | Some p \<Rightarrow> Token p)"
proof -
  obtain dsResp err x' where
    call: "ds_ListBundles (ds s) (list_pagination req) (ext w) = ((dsResp, err), x')"
    by (metis surj_pair)
  note unf = ListFederatedBundles_unfold [OF call, of lib]
  from assms unf have err: "err = None"
    by (cases err) simp_all
  from assms unf err obtain bs where
    loop: "list_loop lib s (lfb_OutputMask req) (Bundles dsResp) [] = Inr bs" and
    resp: "resp = \<lparr>resp_Bundles = bs,
                   NextPageToken = (case Pagination dsResp of None \<Rightarrow> [] | Some p \<Rightarrow> Token p)\<rparr>"
    by (cases "list_loop lib s (lfb_OutputMask req) (Bundles dsResp) []") simp_all
  from list_loop_success [OF loop] obtain pbs where
    "\<forall>b\<in>set (Bundles dsResp). \<exists>t. TrustDomainFromString lib (TrustDomainId b) = Inr t" and
    "map (\<lambda>b. BundleToProto lib (Some b)) (filter (is_federated lib s) (Bundles dsResp)) =
       map Inr pbs" and
    "bs = map (\<lambda>pb. applyBundleMask pb (lfb_OutputMask req)) pbs"
    by auto
  with resp call err show ?thesis by simp
qed

theorem ListFederatedBundles_success_witness:
  "ListFederatedBundles fake_lib fake_service
     \<lparr>lfb_PageSize = 10, lfb_PageToken = ''t1'',
      lfb_OutputMask = Some \<lparr>mask_RefreshHint = False, mask_SequenceNumber = False,
                             mask_X509Authorities = True, mask_JwtAuthorities = True\<rparr>\<rparr> world0 =
     (Inr \<lparr>resp_Bundles =
             [\<lparr>TrustDomain = ''a.test'', RefreshHint = 0, SequenceNumber = 0,
               X509Authorities = [\<lparr>Asn1 = [1, 2]\<rparr>], JwtAuthorities = []\<rparr>],
           NextPageToken = ''t1''\<rparr>,
      \<lparr>ext = ext world0,
       calls = [Call_ListBundles (Some \<lparr>Token = ''t1'', PageSize = 10\<rparr>)]\<rparr>) \<and>
   (\<exists>pbs. map (\<lambda>b. BundleToProto fake_lib (Some b))
            (filter (is_federated fake_lib fake_service) (snd (ext world0))) = map Inr pbs \<and>
          [\<lparr>TrustDomain = ''a.test'', RefreshHint = 0, SequenceNumber = 0,
            X509Authorities = [\<lparr>Asn1 = [1, 2]\<rparr>], JwtAuthorities = []\<rparr>] =
          map (\<lambda>pb. applyBundleMask pb
                 (Some \<lparr>mask_RefreshHint = False, mask_SequenceNumber = False,
                        mask_X509Authorities = True, mask_JwtAuthorities = True\<rparr>)) pbs)"
proof -
  have h: "ListFederatedBundles fake_lib fake_service
     \<lparr>lfb_PageSize = 10, lfb_PageToken = ''t1'',
      lfb_OutputMask = Some \<lparr>mask_RefreshHint = False, mask_SequenceNumber = False,
                             mask_X509Authorities = True, mask_JwtAuthorities = True\<rparr>\<rparr> world0 =
     (Inr \<lparr>resp_Bundles =
             [\<lparr>TrustDomain = ''a.test'', RefreshHint = 0, SequenceNumber = 0,
               X509Authorities = [\<lparr>Asn1 = [1, 2]\<rparr>], JwtAuthorities = []\<rparr>],
           NextPageToken = ''t1''\<rparr>,
      \<lparr>ext = ext world0,
       calls = [Call_ListBundles (Some \<lparr>Token = ''t1'', PageSize = 10\<rparr>)]\<rparr>)"
    by (simp add: ListFederatedBundles_def invoke_def fake_lib_def fake_service_def fake_ds_def
        world0_def stored_bundle_def fake_BundleToProto_def applyBundleMask_def Let_def
        fake_TrustDomainFromString_values)
  from ListFederatedBundles_success [OF h] h show ?thesis
    by (auto simp: fake_service_def fake_ds_def)
qed

text \<open>
  C10. If the trust-domain id of any bundle in the datastore's list response fails to
  parse, \<open>ListFederatedBundles\<close> fails as a whole with status code Internal: the
  result is an error and no response, so no bundle is returned, neither those before
  the malformed entry nor those after it.
\<close>

theorem ListFederatedBundles_invalid_trust_domain:
  assumes "ds_ListBundles (ds s) (list_pagination req) (ext w) = ((dsResp, err), x')"
    and "b \<in> set (Bundles dsResp)"
    and "TrustDomainFromString lib (TrustDomainId b) = Inl e"
  shows "failure_code (fst (ListFederatedBundles lib s req w)) = Some codes_Internal"
proof (cases "err = None")
  case True
  from list_loop_invalid [OF assms(2,3), of s "lfb_OutputMask req" "[]"] obtain ierr where
    "list_loop lib s (lfb_OutputMask req) (Bundles dsResp) [] = Inl ierr" and
    "status_Code (Some ierr) = codes_Internal"
    by blast
  with True show ?thesis
    by (simp add: ListFederatedBundles_unfold [OF assms(1)] failure_code_def)
next
  case False
  then show ?thesis
    by (simp add: ListFederatedBundles_unfold [OF assms(1)] failure_code_def MakeErr_def)
qed

theorem ListFederatedBundles_invalid_trust_domain_witness:
  "stored_bundle ''spiffe://'' \<in> set (snd (ext world1)) \<and>
   TrustDomainFromString fake_lib (TrustDomainId (stored_bundle ''spiffe://'')) =
     Inl (PlainError ''trust domain is not valid'') \<and>
   failure_code (fst (ListFederatedBundles fake_lib fake_service
      \<lparr>lfb_PageSize = 0, lfb_PageToken = [], lfb_OutputMask = None\<rparr> world1)) =
     Some codes_Internal"
proof -
  have c: "ds_ListBundles (ds fake_service)
             (list_pagination \<lparr>lfb_PageSize = 0, lfb_PageToken = [], lfb_OutputMask = None\<rparr>)
             (ext world1) =
           ((\<lparr>Bundles = snd (ext world1), Pagination = None\<rparr>, None), ext world1)"
    by (simp add: fake_service_def fake_ds_def list_pagination_def)
  have m: "stored_bundle ''spiffe://'' \<in>
             set (Bundles \<lparr>Bundles = snd (ext world1), Pagination = None\<rparr>)"
    by (simp add: world1_def)
  have p: "TrustDomainFromString fake_lib (TrustDomainId (stored_bundle ''spiffe://'')) =
             Inl (PlainError ''trust domain is not valid'')"
    by (simp add: fake_lib_def stored_bundle_def fake_TrustDomainFromString_values)
  from ListFederatedBundles_invalid_trust_domain [OF c m p] m p show ?thesis by simp
qed

end
